theory Spec2Isabelle
  imports Main "HOL-Library.AList"
begin

section \<open>JavaScript values used by the authentication code\<close>

text \<open>
  An \<^verbatim>\<open>Error\<close> object is modelled by its message, the only part the code reads.
  A function that may throw returns \<open>error + 'a\<close>, with \<open>Inl\<close> for the thrown error.
\<close>

datatype error = Error string

text \<open>
  \<^verbatim>\<open>String.prototype.includes\<close>: the needle occurs as a contiguous part of the string.
\<close>

fun startsWith :: "string \<Rightarrow> string \<Rightarrow> bool" where
  "startsWith hay [] = True"
| "startsWith [] (n # ns) = False"
| "startsWith (h # hs) (n # ns) = (h = n \<and> startsWith hs ns)"

fun str_includes :: "string \<Rightarrow> string \<Rightarrow> bool" where
  "str_includes [] needle = (needle = [])"
| "str_includes (h # hs) needle = (startsWith (h # hs) needle \<or> str_includes hs needle)"

text \<open>
  The value of a member of a parsed JSON object: a string, a whole number (of magnitude
  below \<open>10^21\<close>, so that it prints in decimal digits), a boolean, \<^verbatim>\<open>null\<close>, or an object
  or array, which is kept as the string it converts to. A parsed JSON object is the list of
  its members, each name once; reading a member that is absent gives \<^verbatim>\<open>undefined\<close>,
  here \<open>None\<close>.
\<close>

datatype jvalue = JString string | JNumber int | JBool bool | JNull | JCompound string

type_synonym json = "(string \<times> jvalue) list"

text \<open>Truthiness of a member that may be absent.\<close>

fun truthyValue :: "jvalue option \<Rightarrow> bool" where
  "truthyValue None = False"
| "truthyValue (Some (JString s)) = (s \<noteq> [])"
| "truthyValue (Some (JNumber n)) = (n \<noteq> 0)"
| "truthyValue (Some (JBool b)) = b"
| "truthyValue (Some JNull) = False"
| "truthyValue (Some (JCompound s)) = True"

text \<open>The conversion to a string that a template literal applies.\<close>

definition digitChar :: "nat \<Rightarrow> char" where
  "digitChar n = ''0123456789'' ! n"

fun showNat :: "nat \<Rightarrow> string" where
  "showNat n = (if n < 10 then [digitChar n] else showNat (n div 10) @ [digitChar (n mod 10)])"

declare showNat.simps [simp del]

definition showInt :: "int \<Rightarrow> string" where
  "showInt i = (if i < 0 then ''-'' @ showNat (nat (- i)) else showNat (nat i))"

fun toStr :: "jvalue \<Rightarrow> string" where
  "toStr (JString s) = s"
| "toStr (JNumber n) = showInt n"
| "toStr (JBool b) = (if b then ''true'' else ''false'')"
| "toStr JNull = ''null''"
| "toStr (JCompound s) = s"

text \<open>
  The members that carry token data are read at the type the token endpoint gives them, a
  string or a number; such a member of another type is read as absent.
\<close>

definition jstr :: "json \<Rightarrow> string \<Rightarrow> string option" where
  "jstr d k = (case map_of d k of Some (JString s) \<Rightarrow> Some s | _ \<Rightarrow> None)"

definition jnum :: "json \<Rightarrow> string \<Rightarrow> int option" where
  "jnum d k = (case map_of d k of Some (JNumber n) \<Rightarrow> Some n | _ \<Rightarrow> None)"

text \<open>Truthiness of an optional string and of an optional number.\<close>

fun truthy :: "string option \<Rightarrow> bool" where
  "truthy None = False"
| "truthy (Some s) = (s \<noteq> [])"

fun truthy_num :: "int option \<Rightarrow> bool" where
  "truthy_num None = False"
| "truthy_num (Some n) = (n \<noteq> 0)"

text \<open>
  The token object that \<^verbatim>\<open>pollForToken\<close> returns and that \<^verbatim>\<open>storeTokens\<close> reads.
\<close>

record tokens =
  tok_accessToken :: "string option"
  tok_refreshToken :: "string option"
  tok_expiresIn :: "int option"
  tok_tokenType :: "string option"
  tok_scope :: "string option"


section \<open>DeviceCodeFlow.pollForToken\<close>

text \<open>
  What one execution of the \<^verbatim>\<open>try\<close> body meets: either it throws before the body is
  inspected (\<^verbatim>\<open>fetch\<close> or \<^verbatim>\<open>response.json()\<close> rejects, or the body is not an object
  and reading its member throws) with an error of the given message, or the token
  endpoint's body parses to a JSON object. The request body (client id, device code, grant
  type) does not influence the control flow and is left out.
\<close>

datatype poll_response = Throws string | Body json

text \<open>How the \<^verbatim>\<open>try\<close> body leaves when it does not throw.\<close>

datatype poll_step = Pending | SlowDown | Return tokens

definition maxAttempts :: nat where
  "maxAttempts = 180"

text \<open>
  The observable effects of a polling run: the number of token requests issued, the total
  of the delays asked of \<^verbatim>\<open>setTimeout\<close> in milliseconds, and the messages of the
  swallowed failures.
\<close>

record poll_state =
  requests :: nat
  waited :: int
  warnings :: "string list"

definition poll_init :: poll_state where
  "poll_init = \<lparr>requests = 0, waited = 0, warnings = []\<rparr>"

text \<open>
  Lines 80 to 119 of \<^verbatim>\<open>oauth-flows.mjs\<close>: the body of the \<^verbatim>\<open>try\<close> block for one
  response. The \<^verbatim>\<open>error\<close> member is tested for truthiness and compared with
  \<^verbatim>\<open>===\<close>, so a truthy value that is not one of the four strings, of whatever type,
  reaches the last branch and is printed into the message.
\<close>

definition tryBody :: "poll_response \<Rightarrow> error + poll_step" where
  "tryBody r =
    (case r of
       Throws m \<Rightarrow> Inl (Error m)
     | Body d \<Rightarrow>
        (if truthyValue (map_of d ''error'') then
           (if map_of d ''error'' = Some (JString ''authorization_pending'') then Inr Pending
            else if map_of d ''error'' = Some (JString ''slow_down'') then Inr SlowDown
            else if map_of d ''error'' = Some (JString ''expired_token'')
              then Inl (Error ''Device code expired. Please try again.'')
            else if map_of d ''error'' = Some (JString ''access_denied'')
              then Inl (Error ''User denied authorization.'')
            else Inl (Error (''Authorization error: ''
                    @ (case map_of d ''error'' of Some v \<Rightarrow> toStr v | None \<Rightarrow> [])
                    @ '' - ''
                    @ (if truthyValue (map_of d ''error_description'')
                       then (case map_of d ''error_description'' of Some v \<Rightarrow> toStr v | None \<Rightarrow> [])
                       else []))))
         else Inr (Return \<lparr>tok_accessToken = jstr d ''access_token'',
                            tok_refreshToken = jstr d ''refresh_token'',
                            tok_expiresIn = jnum d ''expires_in'',
                            tok_tokenType = jstr d ''token_type'',
                            tok_scope = jstr d ''scope''\<rparr>)))"

text \<open>Lines 121 to 123: the test with which the \<^verbatim>\<open>catch\<close> block rethrows.\<close>

definition rethrown :: "string \<Rightarrow> bool" where
  "rethrown m = (str_includes m ''Authorization error'' \<or> str_includes m ''expired''
                 \<or> str_includes m ''denied'')"

text \<open>The sleep and the request that open every iteration.\<close>

definition tick :: "int \<Rightarrow> poll_state \<Rightarrow> poll_state" where
  "tick pollInterval st = st\<lparr>requests := Suc (requests st), waited := waited st + pollInterval\<rparr>"

text \<open>
  The \<^verbatim>\<open>for\<close> loop from a given value of \<^verbatim>\<open>attempt\<close>. The \<open>k\<close>-th request
  (counting from zero) is answered by \<open>rs k\<close>; the loop issues exactly one request per
  iteration, so the request of iteration \<open>attempt\<close> is answered by \<open>rs attempt\<close>.
\<close>

function pollLoop :: "int \<Rightarrow> (nat \<Rightarrow> poll_response) \<Rightarrow> nat \<Rightarrow> poll_state
    \<Rightarrow> (error + tokens) \<times> poll_state" where
  "pollLoop pollInterval rs attempt st =
    (if attempt < maxAttempts then
       (let st1 = tick pollInterval st in
        case tryBody (rs attempt) of
          Inr Pending \<Rightarrow> pollLoop pollInterval rs (Suc attempt) st1
        | Inr SlowDown \<Rightarrow>
            pollLoop pollInterval rs (Suc attempt) (st1\<lparr>waited := waited st1 + pollInterval\<rparr>)
        | Inr (Return t) \<Rightarrow> (Inr t, st1)
        | Inl (Error m) \<Rightarrow>
            (if rethrown m then (Inl (Error m), st1)
             else pollLoop pollInterval rs (Suc attempt)
                    (st1\<lparr>warnings := warnings st1 @ [m]\<rparr>)))
     else (Inl (Error ''Authorization timeout. Please try again.''), st))"
  by pat_completeness auto
termination
  by (relation "measure (\<lambda>(pollInterval, rs, attempt, st). maxAttempts - attempt)") auto

declare pollLoop.simps [simp del]

definition pollForToken :: "string \<Rightarrow> int \<Rightarrow> (nat \<Rightarrow> poll_response)
    \<Rightarrow> (error + tokens) \<times> poll_state" where
  "pollForToken deviceCode interval rs = pollLoop (interval * 1000) rs 0 poll_init"


section \<open>CredentialStore\<close>

text \<open>
  The record persisted per service. \<^verbatim>\<open>issuedAt\<close> and \<^verbatim>\<open>expiresAt\<close> are ISO-8601
  strings in the code, written by \<^verbatim>\<open>toISOString\<close> and read back by
  \<^verbatim>\<open>new Date(...).getTime()\<close>; the model keeps the milliseconds since the epoch they
  denote. \<^verbatim>\<open>accessToken\<close> and \<^verbatim>\<open>refreshToken\<close> are whatever the token object held,
  possibly \<^verbatim>\<open>undefined\<close>; \<^verbatim>\<open>JSON.stringify\<close> drops an undefined member and
  reading it back gives \<^verbatim>\<open>undefined\<close> again, so a record survives serialisation
  unchanged.
\<close>

record token_record =
  accessToken :: "string option"
  refreshToken :: "string option"
  tokenType :: string
  scope :: string
  issuedAt :: int
  expiresAt :: "int option"

text \<open>
  The own members of the decrypted JSON object of the credentials file: service name to
  record, in member order.
\<close>

type_synonym credentials = "(string \<times> token_record) list"

text \<open>
  The object is a plain object, so it inherits the members of \<^verbatim>\<open>Object.prototype\<close>.
  What \<^verbatim>\<open>get\<close> hands out is therefore a stored record or, for a name that is not an own
  member but is one of \<^verbatim>\<open>Object.prototype\<close>, that inherited member (a function, or
  \<^verbatim>\<open>Object.prototype\<close> itself under \<^verbatim>\<open>__proto__\<close>).
\<close>

definition objectPrototype :: "string list" where
  "objectPrototype = [''constructor'', ''__defineGetter__'', ''__defineSetter__'',
     ''hasOwnProperty'', ''__lookupGetter__'', ''__lookupSetter__'', ''isPrototypeOf'',
     ''propertyIsEnumerable'', ''toString'', ''valueOf'', ''__proto__'', ''toLocaleString'']"

datatype stored = Record token_record | Builtin string

text \<open>
  \<^verbatim>\<open>allData[service] || null\<close>: the own member if there is one, else the inherited one,
  else \<^verbatim>\<open>null\<close>; records and inherited members are all truthy.
\<close>

definition readMember :: "credentials \<Rightarrow> string \<Rightarrow> stored option" where
  "readMember allData service =
    (case map_of allData service of
       Some r \<Rightarrow> Some (Record r)
     | None \<Rightarrow> (if service \<in> set objectPrototype then Some (Builtin service) else None))"

text \<open>
  \<^verbatim>\<open>allData[service] = data\<close>: an own member keeps its place and takes the new value,
  a new name is appended, which is \<open>AList.update\<close>; but assigning \<^verbatim>\<open>__proto__\<close>, when
  it is not an own member, runs the inherited setter, which replaces the object's prototype
  and adds no member, so that \<^verbatim>\<open>JSON.stringify\<close> writes the members as they were.
  \<^verbatim>\<open>delete allData[service]\<close> removes an own member, which is \<open>AList.delete\<close>.
\<close>

definition assignMember :: "string \<Rightarrow> token_record \<Rightarrow> credentials \<Rightarrow> credentials" where
  "assignMember service data allData =
    (if service = ''__proto__'' \<and> map_of allData service = None then allData
     else AList.update service data allData)"

text \<open>
  File contents. Encryption is symbolic: an envelope \<^verbatim>\<open>{iv, data}\<close> records the key
  material it was encrypted under, its IV and the members of the plaintext object, and
  opens only under the same key material. \<open>Unreadable\<close> stands for any content that
  \<^verbatim>\<open>JSON.parse\<close>, the decipher or the inner \<^verbatim>\<open>JSON.parse\<close> rejects.
\<close>

datatype file_content = Envelope string nat credentials | Unreadable

text \<open>
  The OS keychain behind the optional \<^verbatim>\<open>keytar\<close> module: whether
  \<^verbatim>\<open>require('keytar')\<close> returns the module, the entries of account \<^verbatim>\<open>default\<close> by
  service, and whether each of its three calls throws.
\<close>

record keytar =
  installed :: bool
  entries :: credentials
  getPasswordThrows :: bool
  setPasswordThrows :: bool
  deletePasswordThrows :: bool

text \<open>
  Everything outside the store object that the authentication code reads or writes: the
  machine identity; whether \<^verbatim>\<open>require\<close> is bound where the code calls it; the file
  system (path to content); the next value of \<^verbatim>\<open>randomBytes(16)\<close>; the keychain; the
  HTTP requests sent so far (URL and form parameters); and the console.

  The source is an ES module that calls \<^verbatim>\<open>require\<close> without creating it, so under
  plain Node \<^verbatim>\<open>require\<close> is not bound and every call of it throws a
  \<^verbatim>\<open>ReferenceError\<close>; under the repository's test runner it is bound. The keychain
  module can only be loaded where \<^verbatim>\<open>require\<close> is bound, so a world with
  \<open>installed\<close> and without \<open>requireBound\<close> does not occur.
  \<^verbatim>\<open>writeFileSync\<close> is taken to succeed.
\<close>

record world =
  hostname :: string
  homedir :: string
  requireBound :: bool
  files :: "string \<rightharpoonup> file_content"
  randomBytes :: nat
  keychain :: keytar
  sent :: "(string \<times> (string \<times> string) list) list"
  console :: "string list"

record credential_store =
  keytarAvailable :: bool
  storageDir :: string
  storageFile :: string

definition checkKeytar :: "world \<Rightarrow> bool" where
  "checkKeytar w = installed (keychain w)"

text \<open>The constructor; creating the storage directory is not modelled.\<close>

definition CredentialStore_new :: "world \<Rightarrow> credential_store" where
  "CredentialStore_new w =
    \<lparr>keytarAvailable = checkKeytar w,
     storageDir = homedir w @ ''/.gitsuper'',
     storageFile = homedir w @ ''/.gitsuper'' @ ''/credentials.enc''\<rparr>"

text \<open>
  \<^verbatim>\<open>_getEncryptionKey\<close> starts with \<^verbatim>\<open>require('node:os')\<close>, which throws where
  \<^verbatim>\<open>require\<close> is not bound. Otherwise the key is a fixed function (PBKDF2 with a
  constant salt) of the machine identifier, which stands for it.
\<close>

definition getEncryptionKey :: "world \<Rightarrow> error + string" where
  "getEncryptionKey w =
    (if requireBound w then Inr (hostname w @ ''-'' @ homedir w)
     else Inl (Error ''require is not defined''))"

definition encrypt :: "world \<Rightarrow> credentials \<Rightarrow> error + (file_content \<times> world)" where
  "encrypt w allData =
    (case getEncryptionKey w of
       Inl e \<Rightarrow> Inl e
     | Inr key \<Rightarrow> Inr (Envelope key (randomBytes w) allData, w\<lparr>randomBytes := Suc (randomBytes w)\<rparr>))"

text \<open>
  \<^verbatim>\<open>this._decrypt(JSON.parse(content))\<close>: content that does not parse throws first, then
  the key is obtained, then the envelope is opened.
\<close>

definition decrypt :: "world \<Rightarrow> file_content \<Rightarrow> error + credentials" where
  "decrypt w content =
    (case content of
       Unreadable \<Rightarrow> Inl (Error ''Unexpected token'')
     | Envelope k iv allData \<Rightarrow>
        (case getEncryptionKey w of
           Inl e \<Rightarrow> Inl e
         | Inr key \<Rightarrow> (if k = key then Inr allData else Inl (Error ''bad decrypt''))))"

text \<open>The three calls of the keychain module, each inside a \<^verbatim>\<open>try\<close> in the code.\<close>

definition keytar_getPassword :: "world \<Rightarrow> string \<Rightarrow> error + token_record option" where
  "keytar_getPassword w service =
    (if \<not> installed (keychain w) \<or> getPasswordThrows (keychain w) then Inl (Error ''keytar'')
     else Inr (map_of (entries (keychain w)) service))"

definition keytar_setPassword :: "world \<Rightarrow> string \<Rightarrow> token_record \<Rightarrow> error + world" where
  "keytar_setPassword w service data =
    (if \<not> installed (keychain w) \<or> setPasswordThrows (keychain w) then Inl (Error ''keytar'')
     else Inr (w\<lparr>keychain := (keychain w)\<lparr>entries := AList.update service data (entries (keychain w))\<rparr>\<rparr>))"

definition keytar_deletePassword :: "world \<Rightarrow> string \<Rightarrow> error + world" where
  "keytar_deletePassword w service =
    (if \<not> installed (keychain w) \<or> deletePasswordThrows (keychain w) then Inl (Error ''keytar'')
     else Inr (w\<lparr>keychain := (keychain w)\<lparr>entries := AList.delete service (entries (keychain w))\<rparr>\<rparr>))"

definition warn :: "string \<Rightarrow> world \<Rightarrow> world" where
  "warn m w = w\<lparr>console := console w @ [m]\<rparr>"

text \<open>\<^verbatim>\<open>_getFromFile\<close>: everything after the existence test is inside one \<^verbatim>\<open>try\<close>.\<close>

definition getFromFile :: "credential_store \<Rightarrow> world \<Rightarrow> string \<Rightarrow> stored option" where
  "getFromFile cs w service =
    (case files w (storageFile cs) of
       None \<Rightarrow> None
     | Some content \<Rightarrow>
        (case decrypt w content of
           Inr allData \<Rightarrow> readMember allData service
         | Inl e \<Rightarrow> None))"

text \<open>
  \<^verbatim>\<open>_setInFile\<close>: reading the existing file is inside a \<^verbatim>\<open>try\<close>; the assignment,
  \<^verbatim>\<open>_encrypt\<close> and the write are not, so a throwing \<^verbatim>\<open>_encrypt\<close> leaves the function
  before anything is written.
\<close>

definition setInFile :: "credential_store \<Rightarrow> world \<Rightarrow> string \<Rightarrow> token_record \<Rightarrow> error + world" where
  "setInFile cs w service data =
    (let (allData, w1) =
       (case files w (storageFile cs) of
          None \<Rightarrow> ([], w)
        | Some content \<Rightarrow>
           (case decrypt w content of
              Inr existing \<Rightarrow> (existing, w)
            | Inl e \<Rightarrow> ([], warn ''Could not read existing credentials'' w)))
     in case encrypt w1 (assignMember service data allData) of
          Inl e \<Rightarrow> Inl e
        | Inr (encrypted, w2) \<Rightarrow> Inr (w2\<lparr>files := (files w2)(storageFile cs \<mapsto> encrypted)\<rparr>))"

text \<open>\<^verbatim>\<open>_deleteFromFile\<close>: everything after the existence test is inside one \<^verbatim>\<open>try\<close>.\<close>

definition deleteFromFile :: "credential_store \<Rightarrow> world \<Rightarrow> string \<Rightarrow> world" where
  "deleteFromFile cs w service =
    (case files w (storageFile cs) of
       None \<Rightarrow> w
     | Some content \<Rightarrow>
        (case decrypt w content of
           Inl e \<Rightarrow> warn ''Error deleting from credentials file'' w
         | Inr allData \<Rightarrow>
            (case encrypt w (AList.delete service allData) of
               Inl e \<Rightarrow> warn ''Error deleting from credentials file'' w
             | Inr (encrypted, w2) \<Rightarrow> w2\<lparr>files := (files w2)(storageFile cs \<mapsto> encrypted)\<rparr>)))"

text \<open>
  \<^verbatim>\<open>get\<close> never throws: \<open>None\<close> is \<^verbatim>\<open>null\<close>. A keychain entry is a serialised
  record.
\<close>

definition CredentialStore_get :: "credential_store \<Rightarrow> world \<Rightarrow> string \<Rightarrow> stored option" where
  "CredentialStore_get cs w service =
    (if keytarAvailable cs then
       (case keytar_getPassword w service of
          Inr data \<Rightarrow> map_option Record data
        | Inl e \<Rightarrow> getFromFile cs w service)
     else getFromFile cs w service)"

definition CredentialStore_set :: "credential_store \<Rightarrow> world \<Rightarrow> string \<Rightarrow> token_record
    \<Rightarrow> error + world" where
  "CredentialStore_set cs w service data =
    (if keytarAvailable cs then
       (case keytar_setPassword w service data of
          Inr w' \<Rightarrow> Inr w'
        | Inl e \<Rightarrow> setInFile cs (warn ''Keytar write failed, falling back to file'' w) service data)
     else setInFile cs w service data)"

definition CredentialStore_delete :: "credential_store \<Rightarrow> world \<Rightarrow> string \<Rightarrow> world" where
  "CredentialStore_delete cs w service =
    (if keytarAvailable cs then
       (case keytar_deletePassword w service of
          Inr w' \<Rightarrow> deleteFromFile cs w' service
        | Inl e \<Rightarrow> deleteFromFile cs (warn ''Keytar delete failed'' w) service)
     else deleteFromFile cs w service)"



section \<open>TokenManager\<close>

text \<open>
  The constructor's options. The field \<^verbatim>\<open>refreshPromise\<close> is \<^verbatim>\<open>null\<close> whenever no
  call of \<^verbatim>\<open>refreshToken\<close> is suspended; the functions of this section describe calls
  that run to completion on their own, so the field is \<^verbatim>\<open>null\<close> before and after each
  of them and is not part of the record. Overlapping calls are the subject of the section
  on single-flight refresh.
\<close>

record options =
  opt_clientId :: string
  opt_clientSecret :: "string option"
  opt_scopes :: "string list option"
  opt_tokenEndpoint :: string
  opt_refreshEndpoint :: "string option"
  opt_refreshThreshold :: "int option"

text \<open>The cache holds what \<^verbatim>\<open>get\<close> returned or what \<^verbatim>\<open>storeTokens\<close> built.\<close>

record token_manager =
  providerId :: string
  clientId :: string
  clientSecret :: "string option"
  scopes :: "string list"
  tokenEndpoint :: string
  refreshEndpoint :: string
  credentialStore :: credential_store
  tokenCache :: "stored option"
  refreshThreshold :: int

definition TokenManager_new :: "string \<Rightarrow> options \<Rightarrow> world \<Rightarrow> token_manager" where
  "TokenManager_new pid opts w =
    \<lparr>providerId = pid,
     clientId = opt_clientId opts,
     clientSecret = opt_clientSecret opts,
     scopes = (case opt_scopes opts of Some ss \<Rightarrow> ss | None \<Rightarrow> []),
     tokenEndpoint = opt_tokenEndpoint opts,
     refreshEndpoint = (if truthy (opt_refreshEndpoint opts)
                        then (case opt_refreshEndpoint opts of Some e \<Rightarrow> e | None \<Rightarrow> [])
                        else opt_tokenEndpoint opts),
     credentialStore = CredentialStore_new w,
     tokenCache = None,
     refreshThreshold = (if truthy_num (opt_refreshThreshold opts)
                         then (case opt_refreshThreshold opts of Some t \<Rightarrow> t | None \<Rightarrow> 0)
                         else 5 * 60 * 1000)\<rparr>"

definition getServiceName :: "token_manager \<Rightarrow> string" where
  "getServiceName tm = ''git-super-'' @ providerId tm"

text \<open>
  \<^verbatim>\<open>x?.accessToken\<close>, \<^verbatim>\<open>x?.refreshToken\<close> and \<^verbatim>\<open>x?.expiresAt\<close> on a value that
  may be \<^verbatim>\<open>null\<close>; an inherited member of \<^verbatim>\<open>Object.prototype\<close> has none of the three.
\<close>

definition accessTokenOf :: "stored option \<Rightarrow> string option" where
  "accessTokenOf x = (case x of Some (Record d) \<Rightarrow> accessToken d | _ \<Rightarrow> None)"

definition refreshTokenOf :: "stored option \<Rightarrow> string option" where
  "refreshTokenOf x = (case x of Some (Record d) \<Rightarrow> refreshToken d | _ \<Rightarrow> None)"

definition expiresAtOf :: "stored option \<Rightarrow> int option" where
  "expiresAtOf x = (case x of Some (Record d) \<Rightarrow> expiresAt d | _ \<Rightarrow> None)"

text \<open>
  \<^verbatim>\<open>getAccessToken\<close> returns the token, or \<open>None\<close> for \<^verbatim>\<open>null\<close>, and the manager
  with its cache possibly filled.
\<close>

definition getAccessToken :: "token_manager \<Rightarrow> world \<Rightarrow> string option \<times> token_manager" where
  "getAccessToken tm w =
    (if truthy (accessTokenOf (tokenCache tm)) then (accessTokenOf (tokenCache tm), tm)
     else (let stored = CredentialStore_get (credentialStore tm) w (getServiceName tm) in
           if truthy (accessTokenOf stored)
           then (accessTokenOf stored, tm\<lparr>tokenCache := stored\<rparr>)
           else (None, tm)))"

definition getRefreshToken :: "token_manager \<Rightarrow> world \<Rightarrow> string option" where
  "getRefreshToken tm w =
    (let stored = CredentialStore_get (credentialStore tm) w (getServiceName tm) in
     if truthy (refreshTokenOf stored) then refreshTokenOf stored else None)"

text \<open>\<open>now\<close> is the value of \<^verbatim>\<open>Date.now()\<close>.\<close>

definition hasValidToken :: "token_manager \<Rightarrow> world \<Rightarrow> int \<Rightarrow> bool \<times> token_manager" where
  "hasValidToken tm w now =
    (let (token, tm1) = getAccessToken tm w in
     if \<not> truthy token then (False, tm1)
     else (let stored = CredentialStore_get (credentialStore tm1) w (getServiceName tm1) in
           case expiresAtOf stored of
             None \<Rightarrow> (True, tm1)
           | Some e \<Rightarrow> (e > now, tm1)))"

definition needsRefresh :: "token_manager \<Rightarrow> world \<Rightarrow> int \<Rightarrow> bool" where
  "needsRefresh tm w now =
    (let stored = CredentialStore_get (credentialStore tm) w (getServiceName tm) in
     case expiresAtOf stored of
       None \<Rightarrow> False
     | Some e \<Rightarrow> (e - now) < refreshThreshold tm)"

text \<open>\<^verbatim>\<open>Array.prototype.join(' ')\<close>.\<close>

fun join_space :: "string list \<Rightarrow> string" where
  "join_space [] = []"
| "join_space [x] = x"
| "join_space (x # y # ys) = x @ '' '' @ join_space (y # ys)"

text \<open>
  The largest time value of a \<^verbatim>\<open>Date\<close>; \<^verbatim>\<open>toISOString\<close> throws a
  \<^verbatim>\<open>RangeError\<close> on a date outside it.
\<close>

definition maxTime :: int where
  "maxTime = 8640000000000000"

definition toISOString :: "int \<Rightarrow> error + int" where
  "toISOString t = (if - maxTime \<le> t \<and> t \<le> maxTime then Inr t else Inl (Error ''Invalid time value''))"

text \<open>
  \<^verbatim>\<open>storeTokens\<close>; \<open>now\<close> is the clock reading, taken to be a representable date.
  It throws when the expiry is not a representable date or when \<^verbatim>\<open>set\<close> throws; the
  cache is assigned only after \<^verbatim>\<open>set\<close> has returned.
\<close>

definition storeTokens :: "token_manager \<Rightarrow> world \<Rightarrow> int \<Rightarrow> tokens
    \<Rightarrow> error + (token_manager \<times> world)" where
  "storeTokens tm w now toks =
    (case (if truthy_num (tok_expiresIn toks)
           then (case tok_expiresIn toks of
                   Some n \<Rightarrow> map_sum id Some (toISOString (now + n * 1000))
                 | None \<Rightarrow> Inr None)
           else Inr None) of
       Inl e \<Rightarrow> Inl e
     | Inr expires \<Rightarrow>
        (let data = \<lparr>accessToken = tok_accessToken toks,
                     refreshToken = tok_refreshToken toks,
                     tokenType = (if truthy (tok_tokenType toks)
                                  then (case tok_tokenType toks of Some t \<Rightarrow> t | None \<Rightarrow> [])
                                  else ''Bearer''),
                     scope = (if truthy (tok_scope toks)
                              then (case tok_scope toks of Some t \<Rightarrow> t | None \<Rightarrow> [])
                              else join_space (scopes tm)),
                     issuedAt = now,
                     expiresAt = expires\<rparr>
         in case CredentialStore_set (credentialStore tm) w (getServiceName tm) data of
              Inl e \<Rightarrow> Inl e
            | Inr w1 \<Rightarrow> Inr (tm\<lparr>tokenCache := Some (Record data)\<rparr>, w1)))"

text \<open>
  The outcome of one \<^verbatim>\<open>fetch\<close>: it rejects with an error, or it resolves to a response
  with a status code, a status text and the result of \<^verbatim>\<open>response.json()\<close>.
  \<^verbatim>\<open>response.ok\<close> is true for the statuses 200 to 299.
\<close>

record response =
  status :: nat
  statusText :: string
  json_result :: "error + json"

datatype fetch_outcome = Rejected string | Resolved response

definition ok :: "response \<Rightarrow> bool" where
  "ok r = (200 \<le> status r \<and> status r \<le> 299)"

definition fetch :: "string \<Rightarrow> (string \<times> string) list \<Rightarrow> world \<Rightarrow> world" where
  "fetch url params w = w\<lparr>sent := sent w @ [(url, params)]\<rparr>"

text \<open>
  \<^verbatim>\<open>storeTokens(tokens)\<close> applied to the parsed body itself: it reads the members
  \<^verbatim>\<open>accessToken\<close>, \<^verbatim>\<open>refreshToken\<close>, \<^verbatim>\<open>expiresIn\<close>, \<^verbatim>\<open>tokenType\<close> and
  \<^verbatim>\<open>scope\<close> of the object it is given.
\<close>

definition asTokens :: "json \<Rightarrow> tokens" where
  "asTokens d =
    \<lparr>tok_accessToken = jstr d ''accessToken'',
     tok_refreshToken = jstr d ''refreshToken'',
     tok_expiresIn = jnum d ''expiresIn'',
     tok_tokenType = jstr d ''tokenType'',
     tok_scope = jstr d ''scope''\<rparr>"

definition refreshParams :: "token_manager \<Rightarrow> string \<Rightarrow> (string \<times> string) list" where
  "refreshParams tm rt =
    [(''grant_type'', ''refresh_token''), (''refresh_token'', rt), (''client_id'', clientId tm)]
    @ (if truthy (clientSecret tm)
       then [(''client_secret'', (case clientSecret tm of Some c \<Rightarrow> c | None \<Rightarrow> []))]
       else [])"

text \<open>
  Lines 169 to 190 of \<^verbatim>\<open>token-manager.mjs\<close>, the \<^verbatim>\<open>try\<close> block of \<^verbatim>\<open>_doRefresh\<close>
  after the request has been sent: \<open>Inl\<close> when it throws, otherwise the value it returns
  with the new state.
\<close>

definition refreshTry :: "token_manager \<Rightarrow> world \<Rightarrow> int \<Rightarrow> fetch_outcome
    \<Rightarrow> error + (bool \<times> token_manager \<times> world)" where
  "refreshTry tm w now fo =
    (case fo of
       Rejected m \<Rightarrow> Inl (Error m)
     | Resolved r \<Rightarrow>
        (if \<not> ok r then Inr (False, tm, warn ''Token refresh failed'' w)
         else (case json_result r of
                 Inl e \<Rightarrow> Inl e
               | Inr d \<Rightarrow>
                  (case storeTokens tm w now (asTokens d) of
                     Inl e \<Rightarrow> Inl e
                   | Inr (tm1, w1) \<Rightarrow> Inr (True, tm1, w1)))))"

text \<open>
  \<^verbatim>\<open>_doRefresh\<close>: \<open>Inl\<close> would be a rejected promise, \<open>Inr b\<close> one resolved to \<open>b\<close>.
\<close>

definition doRefresh :: "token_manager \<Rightarrow> world \<Rightarrow> int \<Rightarrow> fetch_outcome
    \<Rightarrow> (error + bool) \<times> token_manager \<times> world" where
  "doRefresh tm w now fo =
    (case getRefreshToken tm w of
       None \<Rightarrow> (Inr False, tm, w)
     | Some rt \<Rightarrow>
        (let w1 = fetch (refreshEndpoint tm) (refreshParams tm rt) w in
         case refreshTry tm w1 now fo of
           Inr (b, tm1, w2) \<Rightarrow> (Inr b, tm1, w2)
         | Inl e \<Rightarrow> (Inr False, tm, warn ''Error refreshing token'' w1)))"

text \<open>
  \<^verbatim>\<open>refreshToken\<close> called while no refresh is pending: it starts \<^verbatim>\<open>_doRefresh\<close>, awaits
  it and clears the handle.
\<close>

definition TokenManager_refreshToken :: "token_manager \<Rightarrow> world \<Rightarrow> int \<Rightarrow> fetch_outcome
    \<Rightarrow> (error + bool) \<times> token_manager \<times> world" where
  "TokenManager_refreshToken tm w now fo = doRefresh tm w now fo"

text \<open>
  \<^verbatim>\<open>revokeToken\<close>; \<open>None\<close> is a call without an endpoint. The outcome of the
  revocation request is only consulted when the request is sent.
\<close>

definition revokeTry :: "fetch_outcome \<Rightarrow> error + unit" where
  "revokeTry fo = (case fo of Rejected m \<Rightarrow> Inl (Error m) | Resolved r \<Rightarrow> Inr ())"



section \<open>OAuthAuthStrategy\<close>




section \<open>Single-flight refresh: overlapping calls of refreshToken\<close>

text \<open>
  JavaScript runs one task at a time and switches only at an \<^verbatim>\<open>await\<close>. The overlapping
  calls of \<^verbatim>\<open>refreshToken\<close> on one manager are therefore a transition system whose steps
  are the pieces of code between two suspension points. An operation is one run of
  \<^verbatim>\<open>_doRefresh\<close>, that is one promise; its phase says at which \<^verbatim>\<open>await\<close> it is
  suspended, or the value it has resolved to.
\<close>

datatype phase =
    ReadingStore
  | Fetching
  | Parsing response
  | Storing
  | Settled bool

record operation =
  phase :: phase
  httpRequests :: nat

text \<open>
  A call of \<^verbatim>\<open>refreshToken\<close>: the operation whose promise it awaits, whether it is the
  call that created that operation (and so runs the \<^verbatim>\<open>finally\<close> block), and the value
  delivered to its caller once it has resumed.
\<close>

record call =
  awaits :: nat
  owner :: bool
  result :: "bool option"

record manager_state =
  refreshPromise :: "nat option"
  operations :: "operation list"
  calls :: "call list"








definition suspended :: "manager_state \<Rightarrow> call list" where
  "suspended s = filter (\<lambda>c. result c = None) (calls s)"






section \<open>Auxiliary definitions for the statements\<close>

text \<open>
  The message of the \<^verbatim>\<open>SyntaxError\<close> with which \<^verbatim>\<open>response.json()\<close> rejects when the
  body is the plain text \<^verbatim>\<open>Access denied\<close>.
\<close>

definition parseFailure :: string where
  "parseFailure = ''Unexpected token '' @ [CHR 0x27] @ ''A'' @ [CHR 0x27] @ '', '' @ [CHR 0x22]
      @ ''Access denied'' @ [CHR 0x22] @ '' is not valid JSON''"

definition pendingBody :: json where
  "pendingBody = [(''error'', JString ''authorization_pending'')]"

definition deniedBody :: json where
  "deniedBody = [(''error'', JString ''access_denied'')]"

text \<open>A body whose \<^verbatim>\<open>error\<close> member is the number 1.\<close>

definition numberErrorBody :: json where
  "numberErrorBody = [(''error'', JNumber 1)]"

text \<open>
  Concrete records, worlds and stores on which the statements are exercised. The empty
  world is one of the test runner: \<^verbatim>\<open>require\<close> is bound and the keychain module is not
  installed.
\<close>

definition acmeRecord :: token_record where
  "acmeRecord = \<lparr>accessToken = Some ''tok1'', refreshToken = Some ''ref1'', tokenType = ''Bearer'',
     scope = ''read'', issuedAt = 1000, expiresAt = Some 5000\<rparr>"

definition azureRecord :: token_record where
  "azureRecord = \<lparr>accessToken = Some ''tok9'', refreshToken = None, tokenType = ''Bearer'',
     scope = ''write'', issuedAt = 2000, expiresAt = None\<rparr>"

definition noKeytar :: keytar where
  "noKeytar = \<lparr>installed = False, entries = [], getPasswordThrows = False,
     setPasswordThrows = False, deletePasswordThrows = False\<rparr>"

definition emptyWorld :: world where
  "emptyWorld = \<lparr>hostname = ''host'', homedir = ''/home/u'', requireBound = True,
     files = Map.empty, randomBytes = 0, keychain = noKeytar, sent = [], console = []\<rparr>"

definition fileStore :: credential_store where
  "fileStore = CredentialStore_new emptyWorld"

text \<open>A keychain that can be read but refuses writes.\<close>

definition readOnlyKeychainWorld :: world where
  "readOnlyKeychainWorld = emptyWorld\<lparr>keychain := \<lparr>installed = True, entries = [],
     getPasswordThrows = False, setPasswordThrows = True, deletePasswordThrows = False\<rparr>\<rparr>"

definition keychainStore :: credential_store where
  "keychainStore = CredentialStore_new readOnlyKeychainWorld"

definition azureFile :: file_content where
  "azureFile = Envelope ''host-/home/u'' 7 [(''git-super-azure'', azureRecord)]"

definition azureWorld :: world where
  "azureWorld = emptyWorld\<lparr>files := [''/home/u/.gitsuper/credentials.enc'' \<mapsto> azureFile]\<rparr>"

definition corruptWorld :: world where
  "corruptWorld = emptyWorld\<lparr>files := [''/home/u/.gitsuper/credentials.enc'' \<mapsto> Unreadable]\<rparr>"

text \<open>
  The same worlds under plain Node, where \<^verbatim>\<open>require\<close> is not bound: one without a
  credentials file, one with the file that another run has written.
\<close>

definition plainNodeWorld :: world where
  "plainNodeWorld = emptyWorld\<lparr>requireBound := False\<rparr>"

definition plainNodeFileWorld :: world where
  "plainNodeFileWorld = azureWorld\<lparr>requireBound := False\<rparr>"

text \<open>
  \<^verbatim>\<open>set(s, r)\<close> followed by \<^verbatim>\<open>get(s)\<close> on a second store instance: the error of
  \<^verbatim>\<open>set\<close> if it throws, else what \<^verbatim>\<open>get\<close> returns. And the content of the
  credentials file that \<^verbatim>\<open>set(s, r)\<close> leaves, or its error.
\<close>

definition setThenGet :: "credential_store \<Rightarrow> credential_store \<Rightarrow> world \<Rightarrow> string \<Rightarrow> token_record
    \<Rightarrow> error + stored option" where
  "setThenGet cs cs' w service data =
    (case CredentialStore_set cs w service data of
       Inl e \<Rightarrow> Inl e
     | Inr w' \<Rightarrow> Inr (CredentialStore_get cs' w' service))"

definition fileAfterSet :: "credential_store \<Rightarrow> world \<Rightarrow> string \<Rightarrow> token_record
    \<Rightarrow> error + file_content option" where
  "fileAfterSet cs w service data =
    (case CredentialStore_set cs w service data of
       Inl e \<Rightarrow> Inl e
     | Inr w' \<Rightarrow> Inr (files w' (storageFile cs)))"

definition acmeOptions :: options where
  "acmeOptions = \<lparr>opt_clientId = ''client'', opt_clientSecret = None, opt_scopes = Some [''read''],
     opt_tokenEndpoint = ''https://idp.example/token'', opt_refreshEndpoint = None,
     opt_refreshThreshold = None\<rparr>"

definition acmeManager :: token_manager where
  "acmeManager = TokenManager_new ''acme'' acmeOptions emptyWorld"

text \<open>A successful token response in the member names of the OAuth token endpoint.\<close>

definition okResponse :: fetch_outcome where
  "okResponse = Resolved \<lparr>status = 200, statusText = ''OK'',
     json_result = Inr [(''access_token'', JString ''tok2''), (''expires_in'', JNumber 3600)]\<rparr>"

text \<open>A stored record without an access token and without an expiry.\<close>

definition bareRecord :: token_record where
  "bareRecord = \<lparr>accessToken = None, refreshToken = None, tokenType = ''Bearer'',
     scope = ''read'', issuedAt = 1000, expiresAt = None\<rparr>"

definition bareWorld :: world where
  "bareWorld = emptyWorld\<lparr>files := [''/home/u/.gitsuper/credentials.enc'' \<mapsto>
      Envelope ''host-/home/u'' 0 [(''git-super-acme'', bareRecord)]]\<rparr>"

definition cachedManager :: token_manager where
  "cachedManager = acmeManager\<lparr>tokenCache := Some (Record acmeRecord)\<rparr>"

text \<open>A keychain that holds the provider's entry and refuses to delete.\<close>

definition stuckKeychainWorld :: world where
  "stuckKeychainWorld = emptyWorld\<lparr>keychain := \<lparr>installed = True,
     entries = [(''git-super-acme'', acmeRecord)], getPasswordThrows = False,
     setPasswordThrows = False, deletePasswordThrows = True\<rparr>\<rparr>"

definition stuckManager :: token_manager where
  "stuckManager = TokenManager_new ''acme'' acmeOptions stuckKeychainWorld"

definition acmeWorld :: world where
  "acmeWorld = emptyWorld\<lparr>files := [''/home/u/.gitsuper/credentials.enc'' \<mapsto>
      Envelope ''host-/home/u'' 0 [(''git-super-acme'', acmeRecord)]]\<rparr>"

definition refreshedResponse :: fetch_outcome where
  "refreshedResponse = Resolved \<lparr>status = 200, statusText = ''OK'',
     json_result = Inr [(''accessToken'', JString ''tok2''), (''expiresIn'', JNumber 3600)]\<rparr>"

definition unauthorizedResponse :: response where
  "unauthorizedResponse = \<lparr>status = 401, statusText = ''Unauthorized'',
     json_result = Inl (Error ''no body'')\<rparr>"

text \<open>The world in which \<^verbatim>\<open>revokeToken\<close> deletes: the one left by its revocation request.\<close>

definition revokeRequest :: "token_manager \<Rightarrow> world \<Rightarrow> string option \<Rightarrow> fetch_outcome \<Rightarrow> world" where
  "revokeRequest tm w revokeEndpoint fo =
    (if truthy revokeEndpoint \<and> truthy (fst (getAccessToken tm w)) then
       (let w0 = fetch (case revokeEndpoint of Some u \<Rightarrow> u | None \<Rightarrow> [])
                   [(''token'', (case fst (getAccessToken tm w) of Some t \<Rightarrow> t | None \<Rightarrow> [])),
                    (''client_id'', clientId tm)] w
        in case revokeTry fo of
             Inr u \<Rightarrow> w0
           | Inl e \<Rightarrow> warn ''Failed to revoke token on server'' w0)
     else w)"



text \<open>A response that neither ends the polling loop nor is rethrown.\<close>

definition nonTerminal :: "poll_response \<Rightarrow> bool" where
  "nonTerminal r =
    (case tryBody r of
       Inr Pending \<Rightarrow> True
     | Inr SlowDown \<Rightarrow> True
     | Inr (Return t) \<Rightarrow> False
     | Inl (Error m) \<Rightarrow> \<not> rethrown m)"

text \<open>
  The invariant of the transition system of overlapping calls, by component: every call
  awaits an existing operation; an operation that has not settled is the one the handle
  names; the handle names an existing operation whose owner is still suspended; a suspended
  owner's operation is the one the handle names; an operation has one owner; a delivered
  value is the value its operation settled to; an operation has issued at most one request,
  and none before the store was read.
\<close>

definition unsettled :: "phase \<Rightarrow> bool" where
  "unsettled ph = (\<forall>b. ph \<noteq> Settled b)"












section \<open>Properties of DeviceCodeFlow.pollForToken\<close>

lemma jstr_SomeD: "jstr d k = Some s \<Longrightarrow> map_of d k = Some (JString s)"
  by (auto simp: jstr_def split: option.splits jvalue.splits)

lemma tryBody_pending:
  "jstr d ''error'' = Some ''authorization_pending'' \<Longrightarrow> tryBody (Body d) = Inr Pending"
  by (drule jstr_SomeD) (simp add: tryBody_def)

lemma tryBody_denied:
  "jstr d ''error'' = Some ''access_denied'' \<Longrightarrow>
   tryBody (Body d) = Inl (Error ''User denied authorization.'')"
  by (drule jstr_SomeD) (simp add: tryBody_def)

lemma tryBody_expired:
  "jstr d ''error'' = Some ''expired_token'' \<Longrightarrow>
   tryBody (Body d) = Inl (Error ''Device code expired. Please try again.'')"
  by (drule jstr_SomeD) (simp add: tryBody_def)

text \<open>
  A truthy \<^verbatim>\<open>error\<close> member that is not a string is a terminal error as well: it is
  printed into the message of the generic authorization error, which is rethrown.
\<close>

lemma tryBody_number_error:
  "tryBody (Body numberErrorBody) = Inl (Error ''Authorization error: 1 - '')
   \<and> rethrown ''Authorization error: 1 - ''"
  by (simp add: tryBody_def numberErrorBody_def rethrown_def showInt_def showNat.simps
      digitChar_def)

lemma rethrown_denied: "rethrown ''User denied authorization.''"
  by (simp add: rethrown_def)

lemma rethrown_expired: "rethrown ''Device code expired. Please try again.''"
  by (simp add: rethrown_def)

lemma rethrown_parseFailure: "rethrown parseFailure"
  by (simp add: rethrown_def parseFailure_def)

text \<open>
  The loop is total, and a run from \<open>attempt\<close> issues at most \<open>maxAttempts - attempt\<close>
  requests: a whole run issues at most 180.
\<close>

lemma pollLoop_requests_bound:
  "requests (snd (pollLoop pi rs attempt st)) \<le> requests st + (maxAttempts - attempt)"
proof (induction pi rs attempt st rule: pollLoop.induct)
  case (1 pi rs attempt st)
  show ?case
  proof (cases "attempt < maxAttempts")
    case False
    then show ?thesis by (subst pollLoop.simps) simp
  next
    case True
    note IH = "1.IH"[OF True refl]
    show ?thesis
    proof (cases "tryBody (rs attempt)")
      case (Inl e)
      then obtain m where e: "e = Error m" by (cases e) auto
      show ?thesis
      proof (cases "rethrown m")
        case True
        with Inl e \<open>attempt < maxAttempts\<close> show ?thesis
          by (subst pollLoop.simps) (simp add: Let_def tick_def)
      next
        case False
        from IH(1)[OF Inl e False] Inl e False \<open>attempt < maxAttempts\<close> show ?thesis
          by (subst pollLoop.simps) (simp add: Let_def tick_def)
      qed
    next
      case (Inr stp)
      show ?thesis
      proof (cases stp)
        case Pending
        from IH(2)[OF Inr Pending] Inr Pending True show ?thesis
          by (subst pollLoop.simps) (simp add: Let_def tick_def)
      next
        case SlowDown
        from IH(3)[OF Inr SlowDown] Inr SlowDown True show ?thesis
          by (subst pollLoop.simps) (simp add: Let_def tick_def)
      next
        case (Return t)
        with Inr True show ?thesis
          by (subst pollLoop.simps) (simp add: Let_def tick_def)
      qed
    qed
  qed
qed

lemma pollForToken_requests_bound:
  "requests (snd (pollForToken deviceCode interval rs)) \<le> 180"
  using pollLoop_requests_bound [of "interval * 1000" rs 0 poll_init]
  by (simp add: pollForToken_def poll_init_def maxAttempts_def)

text \<open>
  When no response ends the loop and none is rethrown, the run uses the whole budget and
  fails with the timeout error.
\<close>

lemma pollLoop_timeout:
  "(\<forall>j. attempt \<le> j \<and> j < maxAttempts \<longrightarrow> nonTerminal (rs j)) \<Longrightarrow>
   fst (pollLoop pi rs attempt st) = Inl (Error ''Authorization timeout. Please try again.'')
   \<and> requests (snd (pollLoop pi rs attempt st)) = requests st + (maxAttempts - attempt)"
proof (induction pi rs attempt st rule: pollLoop.induct)
  case (1 pi rs attempt st)
  show ?case
  proof (cases "attempt < maxAttempts")
    case False
    then show ?thesis by (subst (1 2) pollLoop.simps) simp
  next
    case True
    note IH = "1.IH"[OF True refl]
    from "1.prems" True have nt: "nonTerminal (rs attempt)" by simp
    from "1.prems" have later: "\<forall>j. Suc attempt \<le> j \<and> j < maxAttempts \<longrightarrow> nonTerminal (rs j)"
      by simp
    show ?thesis
    proof (cases "tryBody (rs attempt)")
      case (Inl e)
      then obtain m where e: "e = Error m" by (cases e) auto
      with nt Inl have nr: "\<not> rethrown m" by (simp add: nonTerminal_def)
      from IH(1)[OF Inl e nr later] Inl e nr True show ?thesis
        by (subst (1 2) pollLoop.simps) (simp add: Let_def tick_def)
    next
      case (Inr stp)
      show ?thesis
      proof (cases stp)
        case Pending
        from IH(2)[OF Inr Pending later] Inr Pending True show ?thesis
          by (subst (1 2) pollLoop.simps) (simp add: Let_def tick_def)
      next
        case SlowDown
        from IH(3)[OF Inr SlowDown later] Inr SlowDown True show ?thesis
          by (subst (1 2) pollLoop.simps) (simp add: Let_def tick_def)
      next
        case (Return t)
        with Inr nt show ?thesis by (simp add: nonTerminal_def)
      qed
    qed
  qed
qed

lemma pending_nonTerminal:
  "jstr d ''error'' = Some ''authorization_pending'' \<Longrightarrow> nonTerminal (Body d)"
  by (simp add: nonTerminal_def tryBody_pending)

text \<open>After a response that is neither terminal nor rethrown the loop goes on to the next attempt.\<close>

lemma pollLoop_nonTerminal_step:
  assumes "attempt < maxAttempts" "nonTerminal (rs attempt)"
  shows "\<exists>st'. pollLoop pi rs attempt st = pollLoop pi rs (Suc attempt) st'
               \<and> requests st' = Suc (requests st)"
proof (cases "tryBody (rs attempt)")
  case (Inl e)
  then obtain m where e: "e = Error m" by (cases e) auto
  with assms(2) Inl have nr: "\<not> rethrown m" by (simp add: nonTerminal_def)
  have "pollLoop pi rs attempt st
      = pollLoop pi rs (Suc attempt) ((tick pi st)\<lparr>warnings := warnings (tick pi st) @ [m]\<rparr>)"
    using assms(1) Inl e nr by (subst pollLoop.simps) (simp add: Let_def)
  then show ?thesis
    by (intro exI [of _ "(tick pi st)\<lparr>warnings := warnings (tick pi st) @ [m]\<rparr>"])
      (simp add: tick_def)
next
  case (Inr stp)
  show ?thesis
  proof (cases stp)
    case Pending
    have "pollLoop pi rs attempt st = pollLoop pi rs (Suc attempt) (tick pi st)"
      using assms(1) Inr Pending by (subst pollLoop.simps) (simp add: Let_def)
    then show ?thesis
      by (intro exI [of _ "tick pi st"]) (simp add: tick_def)
  next
    case SlowDown
    have "pollLoop pi rs attempt st
        = pollLoop pi rs (Suc attempt) ((tick pi st)\<lparr>waited := waited (tick pi st) + pi\<rparr>)"
      using assms(1) Inr SlowDown by (subst pollLoop.simps) (simp add: Let_def)
    then show ?thesis
      by (intro exI [of _ "(tick pi st)\<lparr>waited := waited (tick pi st) + pi\<rparr>"])
        (simp add: tick_def)
  next
    case (Return t)
    with Inr assms(2) show ?thesis by (simp add: nonTerminal_def)
  qed
qed

lemma pollLoop_nonTerminal_prefix:
  "attempt + n \<le> maxAttempts \<Longrightarrow> (\<forall>j. attempt \<le> j \<and> j < attempt + n \<longrightarrow> nonTerminal (rs j)) \<Longrightarrow>
   \<exists>st'. pollLoop pi rs attempt st = pollLoop pi rs (attempt + n) st'
         \<and> requests st' = requests st + n"
proof (induction n arbitrary: attempt st)
  case 0
  show ?case by (intro exI [of _ st]) simp
next
  case (Suc n)
  from Suc.prems have a: "attempt < maxAttempts" and nt: "nonTerminal (rs attempt)"
    by auto
  from pollLoop_nonTerminal_step [of attempt rs pi st, OF a nt] obtain st1 where
    st1: "pollLoop pi rs attempt st = pollLoop pi rs (Suc attempt) st1"
      "requests st1 = Suc (requests st)"
    by blast
  from Suc.prems have b: "Suc attempt + n \<le> maxAttempts"
    and c: "\<forall>j. Suc attempt \<le> j \<and> j < Suc attempt + n \<longrightarrow> nonTerminal (rs j)"
    by auto
  from Suc.IH [of "Suc attempt" st1, OF b c] obtain st2 where
    st2: "pollLoop pi rs (Suc attempt) st1 = pollLoop pi rs (Suc attempt + n) st2"
      "requests st2 = requests st1 + n"
    by blast
  from st1 st2 show ?case
    by (intro exI [of _ st2]) simp
qed

text \<open>
  Claim C3. The claim says that a failure of the request itself is always swallowed and
  retried, and that only a terminal error reported by the provider ends the run early. The
  \<^verbatim>\<open>catch\<close> block decides by looking for three substrings in the message, so a failure
  of \<^verbatim>\<open>response.json()\<close> on the plain-text body \<^verbatim>\<open>Access denied\<close>, whose message
  quotes that body, is rethrown: polling stops after the first request with the parser's
  error, although the provider reported no terminal state.
\<close>

theorem pollForToken_rethrows_parse_failure:
  "pollForToken ''device-code'' 5 (\<lambda>k. Throws parseFailure)
     = (Inl (Error parseFailure), \<lparr>requests = 1, waited = 5000, warnings = []\<rparr>)"
  unfolding pollForToken_def poll_init_def
  by (subst pollLoop.simps) (simp add: maxAttempts_def tryBody_def rethrown_parseFailure tick_def)

text \<open>
  Claim C4. A response whose \<^verbatim>\<open>error\<close> member is \<^verbatim>\<open>authorization_pending\<close> lets the
  loop continue. If the first \<open>k\<close> responses let the loop continue and the next one
  carries \<^verbatim>\<open>access_denied\<close> (or \<^verbatim>\<open>expired_token\<close>), the run fails at once: exactly
  \<open>k + 1\<close> requests are issued, and the error is \<^verbatim>\<open>User denied authorization.\<close> (or
  \<^verbatim>\<open>Device code expired. Please try again.\<close>).
\<close>

theorem pollForToken_terminal_error:
  assumes "k < maxAttempts"
    and "\<forall>j<k. nonTerminal (rs j)"
    and "rs k = Body d"
    and "jstr d ''error'' = Some ''access_denied'' \<or> jstr d ''error'' = Some ''expired_token''"
  shows "fst (pollForToken deviceCode interval rs) =
           Inl (Error (if jstr d ''error'' = Some ''access_denied''
                       then ''User denied authorization.''
                       else ''Device code expired. Please try again.''))
         \<and> requests (snd (pollForToken deviceCode interval rs)) = Suc k
         \<and> (\<forall>d'. jstr d' ''error'' = Some ''authorization_pending'' \<longrightarrow> nonTerminal (Body d'))"
proof -
  let ?pi = "interval * 1000"
  from assms(1,2) have "\<exists>st'. pollLoop ?pi rs 0 poll_init = pollLoop ?pi rs (0 + k) st'
      \<and> requests st' = requests poll_init + k"
    by (intro pollLoop_nonTerminal_prefix) auto
  then obtain st where pre: "pollLoop ?pi rs 0 poll_init = pollLoop ?pi rs k st"
    and req: "requests st = k"
    by (auto simp: poll_init_def)
  have pend: "\<forall>d'. jstr d' ''error'' = Some ''authorization_pending'' \<longrightarrow> nonTerminal (Body d')"
    by (simp add: pending_nonTerminal)
  from assms(4) show ?thesis
  proof
    assume a: "jstr d ''error'' = Some ''access_denied''"
    have "pollLoop ?pi rs k st = (Inl (Error ''User denied authorization.''), tick ?pi st)"
      using assms(1,3) a
      by (subst pollLoop.simps) (simp add: tryBody_denied rethrown_denied Let_def)
    with pre a req pend show ?thesis by (simp add: pollForToken_def tick_def)
  next
    assume a: "jstr d ''error'' = Some ''expired_token''"
    have "pollLoop ?pi rs k st = (Inl (Error ''Device code expired. Please try again.''), tick ?pi st)"
      using assms(1,3) a
      by (subst pollLoop.simps) (simp add: tryBody_expired rethrown_expired Let_def)
    with pre a req pend show ?thesis by (simp add: pollForToken_def tick_def)
  qed
qed

text \<open>Two pending responses, then a denial: three requests and the denial error.\<close>

theorem pollForToken_terminal_error_witness:
  "fst (pollForToken ''device-code'' 5 (\<lambda>j. if j < 2 then Body pendingBody else Body deniedBody))
     = Inl (Error ''User denied authorization.'')
   \<and> requests (snd (pollForToken ''device-code'' 5
        (\<lambda>j. if j < 2 then Body pendingBody else Body deniedBody))) = 3"
  using pollForToken_terminal_error [of 2 "(\<lambda>j. if j < 2 then Body pendingBody else Body deniedBody)"
      deniedBody "''device-code''" 5]
  by (simp add: maxAttempts_def nonTerminal_def tryBody_def pendingBody_def deniedBody_def jstr_def)


section \<open>Properties of CredentialStore\<close>

lemmas example_defs = acmeRecord_def azureRecord_def noKeytar_def emptyWorld_def fileStore_def
  readOnlyKeychainWorld_def keychainStore_def azureWorld_def azureFile_def corruptWorld_def
  plainNodeWorld_def plainNodeFileWorld_def CredentialStore_new_def checkKeytar_def

lemmas store_defs = CredentialStore_get_def CredentialStore_set_def CredentialStore_delete_def
  keytar_getPassword_def keytar_setPassword_def keytar_deletePassword_def getFromFile_def
  setInFile_def deleteFromFile_def decrypt_def encrypt_def getEncryptionKey_def warn_def
  readMember_def assignMember_def objectPrototype_def

lemma key_warn [simp]: "getEncryptionKey (warn m w) = getEncryptionKey w"
  by (simp add: getEncryptionKey_def warn_def)

lemma files_warn [simp]: "files (warn m w) = files w"
  by (simp add: warn_def)

lemma keychain_warn [simp]: "keychain (warn m w) = keychain w"
  by (simp add: warn_def)

lemma randomBytes_warn [simp]: "randomBytes (warn m w) = randomBytes w"
  by (simp add: warn_def)

lemma decrypt_key: "getEncryptionKey w' = getEncryptionKey w \<Longrightarrow> decrypt w' c = decrypt w c"
  by (simp add: decrypt_def split: file_content.splits)

lemma decrypt_warn [simp]: "decrypt (warn m w) c = decrypt w c"
  by (rule decrypt_key) simp

lemma decrypt_own:
  "getEncryptionKey w = Inr key \<Longrightarrow> decrypt w (Envelope key iv allData) = Inr allData"
  by (simp add: decrypt_def)

lemma decrypt_Inr_key: "decrypt w c = Inr allData \<Longrightarrow> \<exists>key. getEncryptionKey w = Inr key"
  by (auto simp: decrypt_def split: file_content.splits sum.splits)

text \<open>
  Where \<^verbatim>\<open>require\<close> is not bound, nothing decrypts and \<^verbatim>\<open>_setInFile\<close> throws before
  it writes.
\<close>

lemma decrypt_unbound: "\<not> requireBound w \<Longrightarrow> \<exists>e. decrypt w c = Inl e"
  by (simp add: decrypt_def getEncryptionKey_def split: file_content.splits)

lemma setInFile_unbound:
  "\<not> requireBound w \<Longrightarrow> setInFile cs w service data = Inl (Error ''require is not defined'')"
  by (simp add: setInFile_def encrypt_def getEncryptionKey_def warn_def split_beta
      split: option.splits sum.splits)

text \<open>
  Where it is bound, \<^verbatim>\<open>_setInFile\<close> returns and leaves an envelope under the machine's
  key that holds the previous members, or none if the file was absent or unreadable, with
  the service assigned.
\<close>

lemma setInFile_bound:
  assumes "getEncryptionKey w = Inr key"
  shows "\<exists>w'. setInFile cs w service data = Inr w'
           \<and> files w' = (files w)(storageFile cs \<mapsto> Envelope key (randomBytes w)
                 (assignMember service data
                    (case files w (storageFile cs) of
                       None \<Rightarrow> []
                     | Some content \<Rightarrow>
                        (case decrypt w content of Inr existing \<Rightarrow> existing | Inl e \<Rightarrow> []))))
           \<and> getEncryptionKey w' = Inr key
           \<and> keychain w' = keychain w"
  using assms
  by (auto simp: setInFile_def encrypt_def getEncryptionKey_def warn_def
      split: option.splits sum.splits if_splits)

lemma readMember_assign_same:
  "service \<noteq> ''__proto__'' \<Longrightarrow> readMember (assignMember service data allData) service = Some (Record data)"
  by (simp add: readMember_def assignMember_def update_conv')

lemma readMember_assign_other:
  "other \<noteq> service \<Longrightarrow> readMember (assignMember service data allData) other = readMember allData other"
  by (simp add: readMember_def assignMember_def update_conv')

lemma getFromFile_setInFile:
  assumes "storageFile cs' = storageFile cs" and "getEncryptionKey w = Inr key"
    and "service \<noteq> ''__proto__''"
  shows "\<exists>w'. setInFile cs w service data = Inr w'
           \<and> getFromFile cs' w' service = Some (Record data) \<and> keychain w' = keychain w"
proof -
  from setInFile_bound [OF assms(2), of cs service data] obtain w' where
    w': "setInFile cs w service data = Inr w'"
      "files w' (storageFile cs) = Some (Envelope key (randomBytes w)
                 (assignMember service data
                    (case files w (storageFile cs) of
                       None \<Rightarrow> []
                     | Some content \<Rightarrow>
                        (case decrypt w content of Inr existing \<Rightarrow> existing | Inl e \<Rightarrow> []))))"
      "getEncryptionKey w' = Inr key" "keychain w' = keychain w"
    by auto
  from w'(2,3) assms(1,3) have "getFromFile cs' w' service = Some (Record data)"
    by (simp add: getFromFile_def decrypt_own readMember_assign_same)
  with w'(1,4) show ?thesis by blast
qed

text \<open>
  The round trip holds where \<^verbatim>\<open>require\<close> is bound and the service is not
  \<^verbatim>\<open>__proto__\<close>, when the keychain backend is inactive or its read and its write either
  both succeed or both throw: \<^verbatim>\<open>set\<close> returns, and \<^verbatim>\<open>get\<close> returns the record, from
  the same store and from any other instance that uses the same file and the same backend.
\<close>

lemma CredentialStore_roundtrip:
  assumes "storageFile cs' = storageFile cs"
    and "keytarAvailable cs' = keytarAvailable cs"
    and "keytarAvailable cs \<longrightarrow>
           setPasswordThrows (keychain w) = getPasswordThrows (keychain w)"
    and "requireBound w"
    and "service \<noteq> ''__proto__''"
  shows "\<exists>w'. CredentialStore_set cs w service data = Inr w'
           \<and> CredentialStore_get cs w' service = Some (Record data)
           \<and> CredentialStore_get cs' w' service = Some (Record data)"
proof -
  from assms(4) have key: "getEncryptionKey w = Inr (hostname w @ ''-'' @ homedir w)"
    by (simp add: getEncryptionKey_def)
  then have keyw: "\<And>m. getEncryptionKey (warn m w) = Inr (hostname w @ ''-'' @ homedir w)"
    by simp
  show ?thesis
  proof (cases "keytarAvailable cs \<and> installed (keychain w) \<and> \<not> setPasswordThrows (keychain w)")
    case True
    with assms show ?thesis
      by (auto simp: CredentialStore_get_def CredentialStore_set_def keytar_getPassword_def
          keytar_setPassword_def update_conv')
  next
    case False
    let ?w0 = "if keytarAvailable cs then warn ''Keytar write failed, falling back to file'' w else w"
    have k0: "getEncryptionKey ?w0 = Inr (hostname w @ ''-'' @ homedir w)"
      using key by simp
    from getFromFile_setInFile [OF refl k0 assms(5), of cs data]
      getFromFile_setInFile [OF assms(1) k0 assms(5), of data]
    obtain w' where w': "setInFile cs ?w0 service data = Inr w'"
      "getFromFile cs w' service = Some (Record data)"
      "getFromFile cs' w' service = Some (Record data)" "keychain w' = keychain ?w0"
      by auto
    from False w' assms(2,3) show ?thesis
      by (intro exI [of _ w'])
        (auto simp: CredentialStore_get_def CredentialStore_set_def keytar_getPassword_def
          keytar_setPassword_def split: if_splits)
  qed
qed

text \<open>
  Claim C6. The claim fails on the code at three inputs. With the keychain backend active
  and a keychain that refuses the write, \<^verbatim>\<open>set\<close> falls back to the file, but
  \<^verbatim>\<open>get\<close> still asks the keychain first, is answered \<^verbatim>\<open>null\<close> and never looks at the
  file. Under plain Node \<^verbatim>\<open>set\<close> throws, because \<^verbatim>\<open>_encrypt\<close> calls
  \<^verbatim>\<open>require\<close>. For the service name \<^verbatim>\<open>__proto__\<close> nothing is stored and \<^verbatim>\<open>get\<close>
  returns \<^verbatim>\<open>Object.prototype\<close>.
\<close>

theorem CredentialStore_roundtrip_failures:
  "setThenGet keychainStore keychainStore readOnlyKeychainWorld ''git-super-acme'' acmeRecord
     = Inr None
   \<and> setThenGet (CredentialStore_new plainNodeWorld) (CredentialStore_new plainNodeWorld)
        plainNodeWorld ''git-super-acme'' acmeRecord
     = Inl (Error ''require is not defined'')
   \<and> setThenGet fileStore fileStore emptyWorld ''__proto__'' acmeRecord
     = Inr (Some (Builtin ''__proto__''))"
  by (simp add: setThenGet_def example_defs store_defs)

text \<open>
  In file mode with the credentials file present, a write of \<open>service\<close> that finds the
  file readable returns, leaves the previous members with \<open>service\<close> assigned, and every
  other name reads as before. A write that finds it unreadable, where \<^verbatim>\<open>require\<close> is
  bound, returns and leaves \<open>service\<close> as the only member, unless \<open>service\<close> is
  \<^verbatim>\<open>__proto__\<close>, which leaves no member. Where \<^verbatim>\<open>require\<close> is not bound the write
  throws.
\<close>

lemma setInFile_frame:
  assumes "\<not> keytarAvailable cs"
    and "files w (storageFile cs) = Some content"
    and "other \<noteq> service"
  shows "(decrypt w content = Inr allData \<longrightarrow>
            (\<exists>w' key. CredentialStore_set cs w service data = Inr w'
               \<and> files w' (storageFile cs)
                   = Some (Envelope key (randomBytes w) (assignMember service data allData))
               \<and> CredentialStore_get cs w' other = CredentialStore_get cs w other))
       \<and> (decrypt w content = Inl e \<and> requireBound w \<longrightarrow>
            (\<exists>w' key. CredentialStore_set cs w service data = Inr w'
               \<and> files w' (storageFile cs)
                   = Some (Envelope key (randomBytes w) (assignMember service data []))
               \<and> CredentialStore_get cs w' other = readMember [] other))
       \<and> (\<not> requireBound w \<longrightarrow>
            CredentialStore_set cs w service data = Inl (Error ''require is not defined''))"
proof (intro conjI impI)
  assume d: "decrypt w content = Inr allData"
  then obtain key where key: "getEncryptionKey w = Inr key"
    using decrypt_Inr_key by blast
  from setInFile_bound [OF key, of cs service data] assms(2) d obtain w' where
    w': "setInFile cs w service data = Inr w'"
      "files w' (storageFile cs) = Some (Envelope key (randomBytes w) (assignMember service data allData))"
      "getEncryptionKey w' = Inr key"
    by auto
  from w'(2,3) assms d have "CredentialStore_get cs w' other = CredentialStore_get cs w other"
    by (simp add: CredentialStore_get_def getFromFile_def decrypt_own readMember_assign_other)
  with w' assms(1) show "\<exists>w' key. CredentialStore_set cs w service data = Inr w'
               \<and> files w' (storageFile cs)
                   = Some (Envelope key (randomBytes w) (assignMember service data allData))
               \<and> CredentialStore_get cs w' other = CredentialStore_get cs w other"
    by (auto simp: CredentialStore_set_def)
next
  assume "decrypt w content = Inl e \<and> requireBound w"
  then have d: "decrypt w content = Inl e"
    and key: "getEncryptionKey w = Inr (hostname w @ ''-'' @ homedir w)"
    by (simp_all add: getEncryptionKey_def)
  from setInFile_bound [OF key, of cs service data] assms(2) d obtain w' where
    w': "setInFile cs w service data = Inr w'"
      "files w' (storageFile cs) = Some (Envelope (hostname w @ ''-'' @ homedir w) (randomBytes w)
          (assignMember service data []))"
      "getEncryptionKey w' = Inr (hostname w @ ''-'' @ homedir w)"
    by auto
  from w'(2,3) assms have "CredentialStore_get cs w' other = readMember [] other"
    by (simp add: CredentialStore_get_def getFromFile_def decrypt_own readMember_assign_other)
  with w' assms(1) show "\<exists>w' key. CredentialStore_set cs w service data = Inr w'
               \<and> files w' (storageFile cs)
                   = Some (Envelope key (randomBytes w) (assignMember service data []))
               \<and> CredentialStore_get cs w' other = readMember [] other"
    by (auto simp: CredentialStore_set_def)
next
  assume "\<not> requireBound w"
  with assms(1) show "CredentialStore_set cs w service data = Inl (Error ''require is not defined'')"
    by (simp add: CredentialStore_set_def setInFile_unbound)
qed

text \<open>
  Claim C9. The second half of the claim fails on the code at two inputs. Under plain
  Node every existing file fails to decrypt, because \<^verbatim>\<open>_decrypt\<close> calls \<^verbatim>\<open>require\<close>,
  and \<^verbatim>\<open>set\<close> then throws in \<^verbatim>\<open>_encrypt\<close> for the same reason, so the file is not
  rewritten. And over an unreadable file, where \<^verbatim>\<open>require\<close> is bound,
  \<^verbatim>\<open>set('__proto__', r)\<close> rewrites the file as the empty map, which does not contain
  the service.
\<close>

theorem setInFile_unreadable_failures:
  "\<not> keytarAvailable (CredentialStore_new plainNodeFileWorld)
   \<and> files plainNodeFileWorld (storageFile (CredentialStore_new plainNodeFileWorld)) = Some azureFile
   \<and> decrypt plainNodeFileWorld azureFile = Inl (Error ''require is not defined'')
   \<and> fileAfterSet (CredentialStore_new plainNodeFileWorld) plainNodeFileWorld
        ''git-super-acme'' acmeRecord
       = Inl (Error ''require is not defined'')
   \<and> \<not> keytarAvailable fileStore
   \<and> files corruptWorld (storageFile fileStore) = Some Unreadable
   \<and> fileAfterSet fileStore corruptWorld ''__proto__'' acmeRecord
       = Inr (Some (Envelope ''host-/home/u'' 0 []))"
  by (simp add: fileAfterSet_def example_defs store_defs)




section \<open>Properties of TokenManager\<close>

lemmas manager_defs = acmeOptions_def acmeManager_def bareRecord_def bareWorld_def cachedManager_def
  stuckKeychainWorld_def stuckManager_def acmeWorld_def refreshedResponse_def
  unauthorizedResponse_def TokenManager_new_def getServiceName_def

lemma getAccessToken_fields [simp]:
  "credentialStore (snd (getAccessToken tm w)) = credentialStore tm"
  "getServiceName (snd (getAccessToken tm w)) = getServiceName tm"
  "clientId (snd (getAccessToken tm w)) = clientId tm"
  by (simp_all add: getAccessToken_def getServiceName_def Let_def)

lemma getAccessToken_truthy:
  "truthy (fst (getAccessToken tm w)) =
     (truthy (accessTokenOf (tokenCache tm))
      \<or> truthy (accessTokenOf (CredentialStore_get (credentialStore tm) w (getServiceName tm))))"
  by (simp add: getAccessToken_def Let_def)

lemma hasValidToken_unfold:
  "fst (hasValidToken tm w now) =
    (truthy (fst (getAccessToken tm w)) \<and>
     (case expiresAtOf (CredentialStore_get (credentialStore tm) w (getServiceName tm)) of
        None \<Rightarrow> True | Some e \<Rightarrow> e > now))"
  by (simp add: hasValidToken_def Let_def split_beta split: option.splits)

text \<open>
  Claim C5, as stated, fails twice. A stored record without an expiry and without an access
  token is not valid, because \<^verbatim>\<open>hasValidToken\<close> first asks for a token; and with an empty
  store a manager whose cache still holds a token answers that the token is valid.
\<close>

theorem token_validity_counterexample:
  "CredentialStore_get (credentialStore acmeManager) bareWorld (getServiceName acmeManager)
     = Some (Record bareRecord)
   \<and> expiresAt bareRecord = None
   \<and> \<not> fst (hasValidToken acmeManager bareWorld 2000)
   \<and> CredentialStore_get (credentialStore cachedManager) emptyWorld (getServiceName cachedManager) = None
   \<and> fst (hasValidToken cachedManager emptyWorld 2000)"
  by (simp add: manager_defs example_defs store_defs hasValidToken_def getAccessToken_def
      accessTokenOf_def expiresAtOf_def)

text \<open>The cached manager is the one \<^verbatim>\<open>getAccessToken\<close> leaves after reading the record.\<close>

lemma getAccessToken_fills_cache:
  "getAccessToken acmeManager acmeWorld = (Some ''tok1'', cachedManager)"
  by (simp add: manager_defs example_defs store_defs getAccessToken_def accessTokenOf_def)

text \<open>
  Such a record is what the manager itself stores when a refresh is answered in the member
  names of the OAuth token endpoint: \<^verbatim>\<open>_doRefresh\<close> hands the parsed body to
  \<^verbatim>\<open>storeTokens\<close>, which reads \<^verbatim>\<open>accessToken\<close> and \<^verbatim>\<open>expiresIn\<close>.
\<close>

lemma refresh_stores_record_without_token:
  "fst (TokenManager_refreshToken acmeManager acmeWorld 1000 okResponse) = Inr True
   \<and> CredentialStore_get (credentialStore acmeManager)
        (snd (snd (TokenManager_refreshToken acmeManager acmeWorld 1000 okResponse)))
        (getServiceName acmeManager) = Some (Record bareRecord)"
  by (simp add: manager_defs example_defs store_defs okResponse_def TokenManager_refreshToken_def doRefresh_def
      getRefreshToken_def refreshTokenOf_def refreshTry_def fetch_def ok_def storeTokens_def
      asTokens_def jstr_def jnum_def toISOString_def maxTime_def Let_def)

text \<open>
  Claim C5, amended. For a stored record: if its expiry is in the past, \<^verbatim>\<open>hasValidToken\<close>
  is false; if it has no expiry and an access token is available (cached, or in the record),
  \<^verbatim>\<open>hasValidToken\<close> is true; if its expiry lies further ahead than the refresh threshold,
  \<^verbatim>\<open>needsRefresh\<close> is false. With no stored record and no cached token,
  \<^verbatim>\<open>hasValidToken\<close> is false. The threshold of a manager constructed without one is
  five minutes.
\<close>

theorem token_validity:
  "(CredentialStore_get (credentialStore tm) w (getServiceName tm) = Some (Record r) \<longrightarrow>
      (expiresAt r = Some e \<and> e < now \<longrightarrow> \<not> fst (hasValidToken tm w now))
    \<and> (expiresAt r = None \<and> (truthy (accessTokenOf (tokenCache tm)) \<or> truthy (accessToken r))
         \<longrightarrow> fst (hasValidToken tm w now))
    \<and> (expiresAt r = Some e \<and> refreshThreshold tm < e - now \<longrightarrow> \<not> needsRefresh tm w now))
   \<and> (CredentialStore_get (credentialStore tm) w (getServiceName tm) = None
        \<and> \<not> truthy (accessTokenOf (tokenCache tm)) \<longrightarrow> \<not> fst (hasValidToken tm w now))
   \<and> (opt_refreshThreshold opts = None \<longrightarrow>
        refreshThreshold (TokenManager_new pid opts w') = 5 * 60 * 1000)"
  by (auto simp: hasValidToken_unfold getAccessToken_truthy expiresAtOf_def accessTokenOf_def
      needsRefresh_def TokenManager_new_def)

text \<open>
  A record that expired at 5000: invalid at 10000, and not due for refresh 405 seconds
  before its expiry.
\<close>

theorem token_validity_witness:
  "CredentialStore_get (credentialStore acmeManager) acmeWorld (getServiceName acmeManager)
     = Some (Record acmeRecord)
   \<and> expiresAt acmeRecord = Some 5000 \<and> (5000::int) < 10000
   \<and> refreshThreshold acmeManager < 5000 - (-400000)
   \<and> \<not> fst (hasValidToken acmeManager acmeWorld 10000)
   \<and> \<not> needsRefresh acmeManager acmeWorld (-400000)
   \<and> refreshThreshold acmeManager = 300000"
  using token_validity [of acmeManager acmeWorld acmeRecord 5000 10000 acmeOptions "''acme''" emptyWorld]
    token_validity [of acmeManager acmeWorld acmeRecord 5000 "-400000" acmeOptions "''acme''" emptyWorld]
  by (simp add: manager_defs example_defs store_defs)

text \<open>
  Claim C2. \<^verbatim>\<open>refreshToken\<close> resolves to \<^verbatim>\<open>false\<close> when no refresh token is stored,
  when the token endpoint answers with a status outside 200 to 299, and when the request
  throws; and in every case it resolves to a boolean rather than rejecting.
\<close>

theorem refreshToken_false_cases:
  "(\<not> truthy (refreshTokenOf (CredentialStore_get (credentialStore tm) w (getServiceName tm)))
      \<longrightarrow> fst (TokenManager_refreshToken tm w now fo) = Inr False)
   \<and> (fo = Resolved r \<and> (status r < 200 \<or> 299 < status r)
      \<longrightarrow> fst (TokenManager_refreshToken tm w now fo) = Inr False)
   \<and> (fo = Rejected m \<longrightarrow> fst (TokenManager_refreshToken tm w now fo) = Inr False)
   \<and> (\<exists>b. fst (TokenManager_refreshToken tm w now fo) = Inr b)"
  by (auto simp: TokenManager_refreshToken_def doRefresh_def getRefreshToken_def refreshTry_def ok_def Let_def
      split_beta split: option.splits sum.splits fetch_outcome.splits prod.splits)

text \<open>An empty store, a rejected request, and a 401 answer.\<close>

theorem refreshToken_false_cases_witness:
  "\<not> truthy (refreshTokenOf (CredentialStore_get (credentialStore acmeManager) emptyWorld
        (getServiceName acmeManager)))
   \<and> fst (TokenManager_refreshToken acmeManager emptyWorld 0 refreshedResponse) = Inr False
   \<and> fst (TokenManager_refreshToken acmeManager acmeWorld 0 (Rejected ''fetch failed'')) = Inr False
   \<and> (status unauthorizedResponse < 200 \<or> 299 < status unauthorizedResponse)
   \<and> fst (TokenManager_refreshToken acmeManager acmeWorld 0 (Resolved unauthorizedResponse)) = Inr False"
  using refreshToken_false_cases [where tm = acmeManager and w = emptyWorld and now = 0
      and fo = refreshedResponse]
    refreshToken_false_cases [where tm = acmeManager and w = acmeWorld and now = 0
      and fo = "Rejected ''fetch failed''" and m = "''fetch failed''"]
    refreshToken_false_cases [where tm = acmeManager and w = acmeWorld and now = 0
      and fo = "Resolved unauthorizedResponse" and r = unauthorizedResponse]
  by (simp add: manager_defs example_defs store_defs refreshTokenOf_def)

lemma fetch_fields [simp]:
  "files (fetch url params w) = files w"
  "keychain (fetch url params w) = keychain w"
  "getEncryptionKey (fetch url params w) = getEncryptionKey w"
  by (simp_all add: fetch_def getEncryptionKey_def)



lemma deleteFromFile_keychain [simp]: "keychain (deleteFromFile cs w service) = keychain w"
  by (simp add: deleteFromFile_def encrypt_def warn_def split: option.splits sum.splits)


lemma revokeRequest_fields [simp]:
  "files (revokeRequest tm w ep fo) = files w"
  "keychain (revokeRequest tm w ep fo) = keychain w"
  "getEncryptionKey (revokeRequest tm w ep fo) = getEncryptionKey w"
  by (simp_all add: revokeRequest_def Let_def split: sum.splits)






section \<open>Properties of OAuthAuthStrategy\<close>






section \<open>Properties of overlapping refreshes\<close>



lemma unsettled_simps [simp]:
  "unsettled ReadingStore" "unsettled Fetching" "unsettled (Parsing r)" "unsettled Storing"
  "\<not> unsettled (Settled b)"
  by (simp_all add: unsettled_def)






















end
